theory Spec2Isabelle
  imports Main "HOL-Library.Char_ord" "HOL-Library.List_Lexorder"
begin

section \<open>Python values and exceptions\<close>

text \<open>
  The values that flow through \<^verbatim>\<open>pull_viaf.py\<close>: what \<^verbatim>\<open>response.json()\<close> yields
  (None, bool, int, str, list, dict with str keys) and the dict of codes that
  \<^verbatim>\<open>viaf_request\<close> builds from them. A dict is an association list read with
  \<open>map_of\<close>. JSON numbers with a fraction or an exponent (Python floats) are left out.
  Strings are lists of characters; the code only concatenates and compares them.
\<close>

datatype pyval =
    PNone
  | PBool bool
  | PInt int
  | PStr string
  | PList "pyval list"
  | PDict "(string \<times> pyval) list"

text \<open>The exceptions the code can raise. \<open>RequestError\<close> stands for whatever
  \<^verbatim>\<open>requests.get\<close> raises at the transport level.\<close>

datatype py_error = TypeError | KeyError | IndexError | AttributeError | RequestError

text \<open>Truth value of an object, as tested by \<^verbatim>\<open>if response_codes["ISNI"]:\<close>.\<close>

fun truthy :: "pyval \<Rightarrow> bool" where
  "truthy PNone = False"
| "truthy (PBool b) = b"
| "truthy (PInt n) = (n \<noteq> 0)"
| "truthy (PStr s) = (s \<noteq> [])"
| "truthy (PList xs) = (xs \<noteq> [])"
| "truthy (PDict kvs) = (kvs \<noteq> [])"

text \<open>Subscription by a string key, \<^verbatim>\<open>v["ISNI"]\<close>: only a dict accepts it, and raises
  KeyError on a key it does not have.\<close>

fun getitem :: "pyval \<Rightarrow> string \<Rightarrow> py_error + pyval" where
  "getitem (PDict kvs) k = (case map_of kvs k of None \<Rightarrow> Inl KeyError | Some v \<Rightarrow> Inr v)"
| "getitem v k = Inl TypeError"

text \<open>Subscription by the integer 0, \<^verbatim>\<open>v[0]\<close>. The keys of a dict here are strings, so
  0 is never among them.\<close>

fun subscript0 :: "pyval \<Rightarrow> py_error + pyval" where
  "subscript0 (PList []) = Inl IndexError"
| "subscript0 (PList (x # xs)) = Inr x"
| "subscript0 (PStr []) = Inl IndexError"
| "subscript0 (PStr (c # cs)) = Inr (PStr [c])"
| "subscript0 (PDict kvs) = Inl KeyError"
| "subscript0 v = Inl TypeError"

text \<open>Substring test, for \<^verbatim>\<open>'ISNI' in viaf_data\<close> when the body is a JSON string.\<close>

fun is_prefix :: "string \<Rightarrow> string \<Rightarrow> bool" where
  "is_prefix [] ys = True"
| "is_prefix (x # xs) [] = False"
| "is_prefix (x # xs) (y # ys) = (x = y \<and> is_prefix xs ys)"

fun is_substring :: "string \<Rightarrow> string \<Rightarrow> bool" where
  "is_substring xs [] = (xs = [])"
| "is_substring xs (y # ys) = (is_prefix xs (y # ys) \<or> is_substring xs ys)"

text \<open>The membership test \<^verbatim>\<open>k in v\<close> with a string \<open>k\<close>: key of a dict, element of a
  list, substring of a string; the other values are not iterable.\<close>

fun contains :: "pyval \<Rightarrow> string \<Rightarrow> py_error + bool" where
  "contains (PDict kvs) k = Inr (k \<in> set (map fst kvs))"
| "contains (PList xs) k = Inr (PStr k \<in> set xs)"
| "contains (PStr s) k = Inr (is_substring k s)"
| "contains v k = Inl TypeError"

text \<open>\<^verbatim>\<open>v.get(k, default)\<close>: a method of dicts only.\<close>

fun get_default :: "pyval \<Rightarrow> string \<Rightarrow> pyval \<Rightarrow> py_error + pyval" where
  "get_default (PDict kvs) k d = Inr (case map_of kvs k of None \<Rightarrow> d | Some v \<Rightarrow> v)"
| "get_default v k d = Inl AttributeError"

text \<open>The text an f-string puts in place of \<^verbatim>\<open>{v}\<close>: a str is inserted as it is; for
  any other value Python calls the built-in \<^verbatim>\<open>str\<close>, which is taken as the parameter
  \<open>py_str\<close>.\<close>

definition format_value :: "(pyval \<Rightarrow> string) \<Rightarrow> pyval \<Rightarrow> string" where
  "format_value py_str v = (case v of PStr s \<Rightarrow> s | _ \<Rightarrow> py_str v)"

section \<open>MARC records (pymarc)\<close>

text \<open>\<^verbatim>\<open>Subfield\<close> is a named tuple of a code and a value.\<close>

datatype subfield = Subfield string string

text \<open>
  A pymarc \<^verbatim>\<open>Field\<close>: a tag, the raw data of a control field (None on a variable
  field), the indicators and the subfields. Whether a field is a control field is
  decided by its tag alone: \<^verbatim>\<open>tag < "010" and tag.isdigit()\<close>. Tags are ASCII.
\<close>

record field =
  tag :: string
  data :: "string option"
  indicators :: "string list"
  subfields :: "subfield list"

definition isdigit :: "string \<Rightarrow> bool" where
  "isdigit s = (s \<noteq> [] \<and> list_all (\<lambda>c. CHR ''0'' \<le> c \<and> c \<le> CHR ''9'') s)"

definition is_control_field :: "field \<Rightarrow> bool" where
  "is_control_field f = (tag f < ''010'' \<and> isdigit (tag f))"

text \<open>A \<^verbatim>\<open>Record\<close> object; the code reads and assigns its \<^verbatim>\<open>fields\<close> attribute
  (\<open>record_fields\<close> here).\<close>

record marc_record =
  record_fields :: "field list"

text \<open>Record objects live in a store, addressed by reference, so that assigning
  \<^verbatim>\<open>record.fields\<close> is visible through every reference to the object.\<close>

type_synonym ref = nat

type_synonym heap = "ref \<Rightarrow> marc_record"

section \<open>The splicer: \<^verbatim>\<open>update_record\<close>\<close>

text \<open>The loop of lines 34-37: \<open>last_fixed\<close> is \<^verbatim>\<open>last_fixed_index\<close>, \<open>i\<close> the index that
  \<^verbatim>\<open>enumerate\<close> supplies.\<close>

fun scan_fixed :: "int \<Rightarrow> int \<Rightarrow> field list \<Rightarrow> int" where
  "scan_fixed last_fixed i [] = last_fixed"
| "scan_fixed last_fixed i (f # fs) =
     scan_fixed (if is_control_field f then i else last_fixed) (i + 1) fs"

definition last_fixed_index :: "field list \<Rightarrow> int" where
  "last_fixed_index fs = scan_fixed (- 1) 0 fs"

text \<open>The slices \<^verbatim>\<open>xs[:j]\<close> and \<^verbatim>\<open>xs[j:]\<close>; a negative bound counts from the end.\<close>

definition slice_to :: "'a list \<Rightarrow> int \<Rightarrow> 'a list" where
  "slice_to xs j = take (nat (if j < 0 then int (length xs) + j else j)) xs"

definition slice_from :: "'a list \<Rightarrow> int \<Rightarrow> 'a list" where
  "slice_from xs j = drop (nat (if j < 0 then int (length xs) + j else j)) xs"

text \<open>The three \<^verbatim>\<open>Field(...)\<close> constructions of lines 47-54, 58-65 and 69-75, given the
  formatted code.\<close>

definition isni_field :: "string \<Rightarrow> field" where
  "isni_field s =
     \<lparr>tag = ''024'', data = None, indicators = [''7'', '' ''],
      subfields = [Subfield ''a'' s, Subfield ''2'' ''isni'']\<rparr>"

definition viaf_field :: "string \<Rightarrow> field" where
  "viaf_field s =
     \<lparr>tag = ''024'', data = None, indicators = [''7'', '' ''],
      subfields = [Subfield ''a'' (''http://viaf.org/viaf/'' @ s), Subfield ''2'' ''uri'']\<rparr>"

definition wkp_field :: "string \<Rightarrow> field" where
  "wkp_field s =
     \<lparr>tag = ''024'', data = None, indicators = [''8'', '' ''],
      subfields = [Subfield ''a'' (''https://www.wikidata.org/wiki/'' @ s)]\<rparr>"

text \<open>
  \<^verbatim>\<open>update_record(record, response_codes)\<close>. It raises where a subscription of
  \<^verbatim>\<open>response_codes\<close> raises, before anything is assigned; otherwise it assigns the
  new list to \<^verbatim>\<open>record.fields\<close> and returns the reference it was given.
\<close>

definition update_record ::
  "(pyval \<Rightarrow> string) \<Rightarrow> heap \<Rightarrow> ref \<Rightarrow> pyval \<Rightarrow> py_error + (heap \<times> ref)" where
  "update_record py_str h record response_codes =
     (let last_fixed = last_fixed_index (record_fields (h record));
          new_fields0 = slice_to (record_fields (h record)) (last_fixed + 1)
      in case getitem response_codes ''ISNI'' of Inl e \<Rightarrow> Inl e | Inr isni \<Rightarrow>
         let new_fields1 =
               (if truthy isni then new_fields0 @ [isni_field (format_value py_str isni)]
                else new_fields0)
         in case getitem response_codes ''VIAF'' of Inl e \<Rightarrow> Inl e | Inr viaf \<Rightarrow>
         let new_fields2 =
               (if truthy viaf then new_fields1 @ [viaf_field (format_value py_str viaf)]
                else new_fields1)
         in case getitem response_codes ''WKP'' of Inl e \<Rightarrow> Inl e | Inr wkp \<Rightarrow>
         let new_fields3 =
               (if truthy wkp then new_fields2 @ [wkp_field (format_value py_str wkp)]
                else new_fields2);
             new_fields = new_fields3 @ slice_from (record_fields (h record)) (last_fixed + 1)
         in Inr (h(record := (h record)\<lparr>record_fields := new_fields\<rparr>), record))"

section \<open>The resolver: \<^verbatim>\<open>viaf_request\<close>\<close>

text \<open>What the code reads of a \<^verbatim>\<open>requests\<close> response: the status code and the result
  of \<^verbatim>\<open>.json()\<close>, which is \<open>None\<close> when the body is not JSON and the call raises
  ValueError.\<close>

record response =
  status_code :: int
  json_body :: "pyval option"

text \<open>Lines 16 and 18: \<^verbatim>\<open>viaf_data.get(k, [''])[0] if k in viaf_data else None\<close>.\<close>

definition first_of_key :: "pyval \<Rightarrow> string \<Rightarrow> py_error + pyval" where
  "first_of_key viaf_data k =
     (case contains viaf_data k of Inl e \<Rightarrow> Inl e
      | Inr False \<Rightarrow> Inr PNone
      | Inr True \<Rightarrow>
          (case get_default viaf_data k (PList [PStr '''']) of Inl e \<Rightarrow> Inl e
           | Inr v \<Rightarrow> subscript0 v))"

text \<open>Line 17: \<^verbatim>\<open>viaf_data.get(k, '') if k in viaf_data else None\<close>.\<close>

definition value_of_key :: "pyval \<Rightarrow> string \<Rightarrow> py_error + pyval" where
  "value_of_key viaf_data k =
     (case contains viaf_data k of Inl e \<Rightarrow> Inl e
      | Inr False \<Rightarrow> Inr PNone
      | Inr True \<Rightarrow> get_default viaf_data k (PStr ''''))"

text \<open>
  \<^verbatim>\<open>viaf_request(identifier)\<close>, with the network as the parameter \<open>http_get\<close> from
  the URL (\<open>viaf_url\<close>, the f-string of line 9) to what \<^verbatim>\<open>requests.get\<close> does there. The \<^verbatim>\<open>except ValueError\<close> clause
  catches the failure of \<^verbatim>\<open>.json()\<close> only: none of the exceptions of the extraction
  is a ValueError. The function returns None (\<open>PNone\<close>) in the handler and when it falls
  off its end on a status other than 200. Printing is not modelled.
\<close>

definition viaf_url :: "string \<Rightarrow> string" where
  "viaf_url identifier =
     ''https://www.viaf.org/viaf/sourceID/ERRR|'' @ identifier @ ''/justlinks.json''"

definition viaf_request ::
  "(string \<Rightarrow> py_error + response) \<Rightarrow> string \<Rightarrow> py_error + pyval" where
  "viaf_request http_get identifier =
     (case http_get (viaf_url identifier) of
        Inl e \<Rightarrow> Inl e
      | Inr viaf_response \<Rightarrow>
          if status_code viaf_response = 200 then
            (case json_body viaf_response of
               None \<Rightarrow> Inr PNone
             | Some viaf_data \<Rightarrow>
                 (case first_of_key viaf_data ''ISNI'' of Inl e \<Rightarrow> Inl e | Inr isni_code \<Rightarrow>
                  case value_of_key viaf_data ''viafID'' of Inl e \<Rightarrow> Inl e | Inr viaf_code \<Rightarrow>
                  case first_of_key viaf_data ''WKP'' of Inl e \<Rightarrow> Inl e | Inr wkp_code \<Rightarrow>
                  Inr (PDict [(''ISNI'', isni_code), (''VIAF'', viaf_code), (''WKP'', wkp_code)])))
          else Inr PNone)"

section \<open>The driver: \<^verbatim>\<open>process_marc_records\<close>\<close>

text \<open>\<^verbatim>\<open>record['001']\<close>: the first field with that tag; pymarc raises KeyError when the
  record has none.\<close>

fun getitem_tag :: "field list \<Rightarrow> string \<Rightarrow> py_error + field" where
  "getitem_tag [] t = Inl KeyError"
| "getitem_tag (f # fs) t = (if tag f = t then Inr f else getitem_tag fs t)"

text \<open>
  The body of the loop, lines 103-110, for one item of the reader; the result is the
  record handed to \<^verbatim>\<open>writer.write\<close>. The reader yields None for a record it cannot
  decode, and subscripting None raises TypeError. A field tagged 001 is a control
  field, so \<^verbatim>\<open>value()\<close> returns its data; data that is None is rendered \<^verbatim>\<open>None\<close> by the
  f-string of line 9. The record read is a fresh object: it sits alone in a store
  (\<open>new_store\<close>), at the reference held by the variable \<^verbatim>\<open>record\<close>. The variable \<^verbatim>\<open>updated_record\<close> is
  assigned and not read again; what is written is the object \<^verbatim>\<open>record\<close> refers to,
  in the store as the call of \<^verbatim>\<open>update_record\<close> left it.
\<close>

definition new_store :: "marc_record \<Rightarrow> heap" where
  "new_store rec = (\<lambda>r. rec)"

definition process_record ::
  "(pyval \<Rightarrow> string) \<Rightarrow> (string \<Rightarrow> py_error + response) \<Rightarrow> marc_record option
     \<Rightarrow> py_error + marc_record" where
  "process_record py_str http_get item =
     (case item of None \<Rightarrow> Inl TypeError | Some rec \<Rightarrow>
      case getitem_tag (record_fields rec) ''001'' of Inl e \<Rightarrow> Inl e | Inr f \<Rightarrow>
      let identifier = (case data f of None \<Rightarrow> ''None'' | Some s \<Rightarrow> s)
      in case viaf_request http_get identifier of Inl e \<Rightarrow> Inl e | Inr viaf_response_codes \<Rightarrow>
      let h = new_store rec; record = 0
      in case update_record py_str h record viaf_response_codes of Inl e \<Rightarrow> Inl e
         | Inr (h', updated_record) \<Rightarrow> Inr (h' record))"

text \<open>
  The loop of lines 102-114 over the items the reader still has, with
  \<^verbatim>\<open>record_count\<close> from \<^verbatim>\<open>enumerate\<close>. The result is the list of records written, in
  order, and the exception that ended the loop, if one did.
\<close>

fun process_loop ::
  "(pyval \<Rightarrow> string) \<Rightarrow> (string \<Rightarrow> py_error + response) \<Rightarrow> int option \<Rightarrow> int
     \<Rightarrow> marc_record option list \<Rightarrow> marc_record list \<times> py_error option" where
  "process_loop py_str http_get num_records_to_process record_count [] = ([], None)"
| "process_loop py_str http_get num_records_to_process record_count (item # reader) =
     (case process_record py_str http_get item of
        Inl e \<Rightarrow> ([], Some e)
      | Inr written \<Rightarrow>
          if (case num_records_to_process of None \<Rightarrow> False
              | Some n \<Rightarrow> record_count + 1 \<ge> n)
          then ([written], None)
          else (case process_loop py_str http_get num_records_to_process (record_count + 1) reader of
                  (ws, err) \<Rightarrow> (written # ws, err)))"

text \<open>\<^verbatim>\<open>process_marc_records\<close>, with the input file as the list of items its reader
  yields and the output file as the list of records written.\<close>

definition process_marc_records ::
  "(pyval \<Rightarrow> string) \<Rightarrow> (string \<Rightarrow> py_error + response) \<Rightarrow> marc_record option list
     \<Rightarrow> int option \<Rightarrow> marc_record list \<times> py_error option" where
  "process_marc_records py_str http_get reader num_records_to_process =
     process_loop py_str http_get num_records_to_process 0 reader"

section \<open>Notions used to state the properties\<close>

text \<open>The index at which lines 43 and 78 cut the field list: \<^verbatim>\<open>last_fixed_index + 1\<close>.\<close>

definition splice_index :: "field list \<Rightarrow> nat" where
  "splice_index fs = nat (last_fixed_index fs + 1)"

text \<open>The fields appended by lines 46-75, given the values found under the three keys.\<close>

definition built_fields :: "(pyval \<Rightarrow> string) \<Rightarrow> pyval \<Rightarrow> pyval \<Rightarrow> pyval \<Rightarrow> field list" where
  "built_fields py_str isni viaf wkp =
     (if truthy isni then [isni_field (format_value py_str isni)] else []) @
     (if truthy viaf then [viaf_field (format_value py_str viaf)] else []) @
     (if truthy wkp then [wkp_field (format_value py_str wkp)] else [])"

text \<open>The control-field-contiguity invariant of the specification: no variable field
  precedes a control field.\<close>

definition well_formed :: "field list \<Rightarrow> bool" where
  "well_formed fs = sorted_wrt (\<lambda>f g. is_control_field g \<longrightarrow> is_control_field f) fs"

text \<open>An optional string of the specification's identifier codes, as the Python value
  that stands for it: None, or the str.\<close>

fun py_opt :: "string option \<Rightarrow> pyval" where
  "py_opt None = PNone"
| "py_opt (Some s) = PStr s"

text \<open>
  The new fields in the words of the specification, section 4.2: up to three variable
  fields in the order ISNI, VIAF, Wikidata, each one included only if its code is
  present and non-empty.
\<close>

definition spec_new_fields ::
  "string option \<Rightarrow> string option \<Rightarrow> string option \<Rightarrow> field list" where
  "spec_new_fields isni viaf wkp =
     (case isni of
        Some s \<Rightarrow>
          if s \<noteq> [] then
            [\<lparr>tag = ''024'', data = None, indicators = [''7'', '' ''],
              subfields = [Subfield ''a'' s, Subfield ''2'' ''isni'']\<rparr>]
          else []
      | None \<Rightarrow> []) @
     (case viaf of
        Some s \<Rightarrow>
          if s \<noteq> [] then
            [\<lparr>tag = ''024'', data = None, indicators = [''7'', '' ''],
              subfields = [Subfield ''a'' (''http://viaf.org/viaf/'' @ s), Subfield ''2'' ''uri'']\<rparr>]
          else []
      | None \<Rightarrow> []) @
     (case wkp of
        Some s \<Rightarrow>
          if s \<noteq> [] then
            [\<lparr>tag = ''024'', data = None, indicators = [''8'', '' ''],
              subfields = [Subfield ''a'' (''https://www.wikidata.org/wiki/'' @ s)]\<rparr>]
          else []
      | None \<Rightarrow> [])"

subsection \<open>Concrete inputs\<close>

text \<open>A record with one control field and one variable field, alone in a store; the
  codes of the specification's example; a service that answers every request with
  status 200 and the body \<^verbatim>\<open>{"viafID": "999"}\<close>, and one that answers 404. In these
  inputs every code is a str or None, so the rendering of other values is never
  asked for: \<open>no_str\<close> fills that parameter.\<close>

definition control_001 :: field where
  "control_001 = \<lparr>tag = ''001'', data = Some ''a11234567'', indicators = [], subfields = []\<rparr>"

definition title_245 :: field where
  "title_245 =
     \<lparr>tag = ''245'', data = None, indicators = [''1'', ''0''],
      subfields = [Subfield ''a'' ''Kevade'']\<rparr>"

definition example_record :: marc_record where
  "example_record = \<lparr>record_fields = [control_001, title_245]\<rparr>"

definition example_heap :: heap where
  "example_heap = new_store example_record"

definition example_codes :: pyval where
  "example_codes =
     PDict [(''ISNI'', PStr ''0000000123456789''), (''VIAF'', PStr ''12345''), (''WKP'', PStr ''Q42'')]"

definition viaf_only_codes :: pyval where
  "viaf_only_codes = PDict [(''ISNI'', PNone), (''VIAF'', PStr ''12345''), (''WKP'', PNone)]"

definition absent_codes :: pyval where
  "absent_codes = PDict [(''ISNI'', PNone), (''VIAF'', PNone), (''WKP'', PNone)]"

definition no_str :: "pyval \<Rightarrow> string" where
  "no_str v = []"

definition http_999 :: "string \<Rightarrow> py_error + response" where
  "http_999 url = Inr \<lparr>status_code = 200, json_body = Some (PDict [(''viafID'', PStr ''999'')])\<rparr>"

definition http_404 :: "string \<Rightarrow> py_error + response" where
  "http_404 url = Inr \<lparr>status_code = 404, json_body = None\<rparr>"

definition http_not_json :: "string \<Rightarrow> py_error + response" where
  "http_not_json url = Inr \<lparr>status_code = 200, json_body = None\<rparr>"

definition http_empty_isni :: "string \<Rightarrow> py_error + response" where
  "http_empty_isni url = Inr \<lparr>status_code = 200, json_body = Some (PDict [(''ISNI'', PList [])])\<rparr>"

definition http_empty_wkp :: "string \<Rightarrow> py_error + response" where
  "http_empty_wkp url =
     Inr \<lparr>status_code = 200,
          json_body = Some (PDict [(''viafID'', PStr ''999''), (''WKP'', PList [])])\<rparr>"

section \<open>The splice index\<close>

lemma scan_fixed_cases:
  "(scan_fixed l i fs = l \<and> (\<forall>f\<in>set fs. \<not> is_control_field f)) \<or>
   (\<exists>k<length fs. scan_fixed l i fs = i + int k \<and> is_control_field (fs ! k) \<and>
      (\<forall>j. k < j \<and> j < length fs \<longrightarrow> \<not> is_control_field (fs ! j)))"
proof (induction fs arbitrary: l i)
  case Nil
  then show ?case by simp
next
  case (Cons f fs)
  let ?l = "if is_control_field f then i else l"
  from Cons.IH [of ?l "i + 1"]
  consider (none) "scan_fixed ?l (i + 1) fs = ?l" "\<forall>g\<in>set fs. \<not> is_control_field g"
    | (some) k where "k < length fs" "scan_fixed ?l (i + 1) fs = i + 1 + int k"
        "is_control_field (fs ! k)"
        "\<forall>j. k < j \<and> j < length fs \<longrightarrow> \<not> is_control_field (fs ! j)"
    by blast
  then show ?case
  proof cases
    case none
    show ?thesis
    proof (cases "is_control_field f")
      case True
      have "\<forall>j. 0 < j \<and> j < length (f # fs) \<longrightarrow> \<not> is_control_field ((f # fs) ! j)"
        using none(2) by (auto simp: nth_Cons split: nat.splits)
      with True none(1) show ?thesis
        by (intro disjI2 exI [of _ 0]) simp
    next
      case False
      with none show ?thesis by simp
    qed
  next
    case some
    have "\<forall>j. Suc k < j \<and> j < length (f # fs) \<longrightarrow> \<not> is_control_field ((f # fs) ! j)"
      using some(4) by (auto simp: nth_Cons split: nat.splits)
    with some(1,2,3) show ?thesis
      by (intro disjI2 exI [of _ "Suc k"]) simp
  qed
qed


lemma last_fixed_index_cases:
  "(last_fixed_index fs = - 1 \<and> (\<forall>f\<in>set fs. \<not> is_control_field f)) \<or>
   (\<exists>k<length fs. last_fixed_index fs = int k \<and> is_control_field (fs ! k) \<and>
      (\<forall>j. k < j \<and> j < length fs \<longrightarrow> \<not> is_control_field (fs ! j)))"
  using scan_fixed_cases [of "- 1" 0 fs] by (simp add: last_fixed_index_def)

lemma last_fixed_index_ge: "- 1 \<le> last_fixed_index fs"
  using last_fixed_index_cases [of fs] by auto

lemma splice_index_cases:
  "(splice_index fs = 0 \<and> (\<forall>f\<in>set fs. \<not> is_control_field f)) \<or>
   (\<exists>k<length fs. splice_index fs = Suc k \<and> is_control_field (fs ! k) \<and>
      (\<forall>j. k < j \<and> j < length fs \<longrightarrow> \<not> is_control_field (fs ! j)))"
proof -
  have "nat (int k + 1) = Suc k" for k by simp
  then show ?thesis
    using last_fixed_index_cases [of fs] unfolding splice_index_def by auto
qed

lemma splice_index_le: "splice_index fs \<le> length fs"
  using splice_index_cases [of fs] by auto

lemma splice_index_after:
  assumes "j < length fs" "is_control_field (fs ! j)"
  shows "j < splice_index fs"
proof (rule ccontr)
  assume "\<not> j < splice_index fs"
  with splice_index_cases [of fs] assms show False
    by (auto dest: nth_mem)
qed

lemma splice_index_none: "\<forall>f\<in>set fs. \<not> is_control_field f \<Longrightarrow> splice_index fs = 0"
  using splice_index_cases [of fs] by (auto dest: nth_mem)

lemma splice_index_some:
  assumes "\<exists>f\<in>set fs. is_control_field f"
  shows "0 < splice_index fs \<and> is_control_field (fs ! (splice_index fs - 1))"
  using splice_index_cases [of fs] assms by auto

lemma slice_to_splice: "slice_to fs (last_fixed_index fs + 1) = take (splice_index fs) fs"
  using last_fixed_index_ge [of fs] by (simp add: slice_to_def splice_index_def)

lemma slice_from_splice: "slice_from fs (last_fixed_index fs + 1) = drop (splice_index fs) fs"
  using last_fixed_index_ge [of fs] by (simp add: slice_from_def splice_index_def)

lemma update_record_dict:
  assumes "getitem codes ''ISNI'' = Inr isni" "getitem codes ''VIAF'' = Inr viaf"
    "getitem codes ''WKP'' = Inr wkp"
  shows "update_record py_str h r codes =
     Inr (h(r := (h r)\<lparr>record_fields :=
            take (splice_index (record_fields (h r))) (record_fields (h r)) @
            built_fields py_str isni viaf wkp @
            drop (splice_index (record_fields (h r))) (record_fields (h r))\<rparr>), r)"
  using assms
  by (simp add: update_record_def Let_def slice_to_splice slice_from_splice built_fields_def)

lemma update_record_Inr_dict:
  assumes "update_record py_str h r codes = Inr res"
  shows "\<exists>isni viaf wkp. getitem codes ''ISNI'' = Inr isni \<and> getitem codes ''VIAF'' = Inr viaf \<and>
    getitem codes ''WKP'' = Inr wkp"
  using assms by (auto simp: update_record_def Let_def split: sum.splits)

section \<open>Properties of the splicer\<close>

subsection \<open>The fields built, and the invariant\<close>

lemma built_fields_not_control: "f \<in> set (built_fields py_str isni viaf wkp) \<Longrightarrow> \<not> is_control_field f"
  by (auto simp: built_fields_def is_control_field_def isni_field_def viaf_field_def wkp_field_def
      split: if_splits)

lemma built_fields_nonempty:
  "truthy isni \<or> truthy viaf \<or> truthy wkp \<Longrightarrow> built_fields py_str isni viaf wkp \<noteq> []"
  by (auto simp: built_fields_def)

lemma built_fields_absent:
  "\<not> truthy isni \<Longrightarrow> \<not> truthy viaf \<Longrightarrow> \<not> truthy wkp \<Longrightarrow> built_fields py_str isni viaf wkp = []"
  by (simp add: built_fields_def)

lemma built_fields_spec:
  "built_fields py_str (py_opt isni) (py_opt viaf) (py_opt wkp) = spec_new_fields isni viaf wkp"
  by (cases isni; cases viaf; cases wkp)
     (simp_all add: built_fields_def spec_new_fields_def format_value_def
        isni_field_def viaf_field_def wkp_field_def)

lemma drop_splice_not_control:
  assumes "f \<in> set (drop (splice_index fs) fs)"
  shows "\<not> is_control_field f"
proof
  assume c: "is_control_field f"
  from assms obtain j where j: "j < length (drop (splice_index fs) fs)"
    "f = drop (splice_index fs) fs ! j"
    by (auto simp: in_set_conv_nth)
  then have "splice_index fs + j < length fs" "f = fs ! (splice_index fs + j)"
    by (simp_all add: splice_index_le)
  with c splice_index_after [of "splice_index fs + j" fs] show False by simp
qed

lemma no_control_well_formed: "\<forall>f\<in>set fs. \<not> is_control_field f \<Longrightarrow> well_formed fs"
  unfolding well_formed_def by (induction fs) auto

lemma well_formed_splice:
  assumes "well_formed fs" "\<forall>f\<in>set ins. \<not> is_control_field f"
  shows "well_formed (take (splice_index fs) fs @ ins @ drop (splice_index fs) fs)"
proof -
  let ?P = "\<lambda>f g. is_control_field g \<longrightarrow> is_control_field f"
  have rest: "\<forall>f\<in>set (ins @ drop (splice_index fs) fs). \<not> is_control_field f"
    using assms(2) drop_splice_not_control by auto
  have "sorted_wrt ?P (take (splice_index fs) fs)"
    using assms(1) unfolding well_formed_def by (rule sorted_wrt_take)
  moreover have "sorted_wrt ?P (ins @ drop (splice_index fs) fs)"
    using no_control_well_formed [OF rest] by (simp add: well_formed_def)
  ultimately have "sorted_wrt ?P (take (splice_index fs) fs @ (ins @ drop (splice_index fs) fs))"
    using rest unfolding sorted_wrt_append by blast
  then show ?thesis by (simp add: well_formed_def)
qed

subsection \<open>Where the new fields go\<close>

text \<open>
  C1. The identifier codes are a dict that has the three keys, as \<^verbatim>\<open>viaf_request\<close>
  builds it; a code is present when its value is true (not None, not empty). When
  at least one code is present, \<^verbatim>\<open>update_record\<close> returns, and the field list it
  leaves in the record is the old list cut at some index \<open>n\<close> with the new, non-empty
  run of fields put in between, so the fields that were there keep their relative
  order. Every control field of the old list lies before \<open>n\<close>; when the record has a
  control field, the field just before \<open>n\<close> is one, so \<open>n\<close> is the position
  immediately after the last control field; when it has none, \<open>n\<close> is 0.
\<close>

theorem splice_after_last_control_field:
  assumes "getitem codes ''ISNI'' = Inr isni" "getitem codes ''VIAF'' = Inr viaf"
    "getitem codes ''WKP'' = Inr wkp"
    and "truthy isni \<or> truthy viaf \<or> truthy wkp"
  shows "\<exists>n. update_record py_str h r codes =
           Inr (h(r := (h r)\<lparr>record_fields :=
                  take n (record_fields (h r)) @ built_fields py_str isni viaf wkp @
                  drop n (record_fields (h r))\<rparr>), r) \<and>
         built_fields py_str isni viaf wkp \<noteq> [] \<and>
         n \<le> length (record_fields (h r)) \<and>
         (\<forall>j<length (record_fields (h r)). is_control_field (record_fields (h r) ! j) \<longrightarrow> j < n) \<and>
         (if \<exists>f\<in>set (record_fields (h r)). is_control_field f
          then 0 < n \<and> is_control_field (record_fields (h r) ! (n - 1))
          else n = 0)"
proof (intro exI [of _ "splice_index (record_fields (h r))"] conjI)
  show "update_record py_str h r codes =
           Inr (h(r := (h r)\<lparr>record_fields :=
                  take (splice_index (record_fields (h r))) (record_fields (h r)) @ built_fields py_str isni viaf wkp @
                  drop (splice_index (record_fields (h r))) (record_fields (h r))\<rparr>), r)"
    using assms(1-3) by (rule update_record_dict)
  show "built_fields py_str isni viaf wkp \<noteq> []"
    using assms(4) by (rule built_fields_nonempty)
  show "splice_index (record_fields (h r)) \<le> length (record_fields (h r))"
    by (rule splice_index_le)
  show "\<forall>j<length (record_fields (h r)). is_control_field (record_fields (h r) ! j) \<longrightarrow>
      j < splice_index (record_fields (h r))"
    using splice_index_after by blast
  show "if \<exists>f\<in>set (record_fields (h r)). is_control_field f
          then 0 < splice_index (record_fields (h r)) \<and>
            is_control_field (record_fields (h r) ! (splice_index (record_fields (h r)) - 1))
          else splice_index (record_fields (h r)) = 0"
    using splice_index_some [of "record_fields (h r)"] splice_index_none [of "record_fields (h r)"]
    by (simp split: if_splits)
qed

theorem splice_after_last_control_field_witness:
  "getitem example_codes ''ISNI'' = Inr (PStr ''0000000123456789'') \<and>
   getitem example_codes ''VIAF'' = Inr (PStr ''12345'') \<and>
   getitem example_codes ''WKP'' = Inr (PStr ''Q42'') \<and>
   (truthy (PStr ''0000000123456789'') \<or> truthy (PStr ''12345'') \<or> truthy (PStr ''Q42'')) \<and>
   (\<exists>n. update_record no_str example_heap 0 example_codes =
           Inr (example_heap(0 := (example_heap 0)\<lparr>record_fields :=
                  take n (record_fields (example_heap 0)) @
                  built_fields no_str (PStr ''0000000123456789'') (PStr ''12345'') (PStr ''Q42'') @
                  drop n (record_fields (example_heap 0))\<rparr>), 0) \<and>
         built_fields no_str (PStr ''0000000123456789'') (PStr ''12345'') (PStr ''Q42'') \<noteq> [] \<and>
         n \<le> length (record_fields (example_heap 0)) \<and>
         (\<forall>j<length (record_fields (example_heap 0)).
             is_control_field (record_fields (example_heap 0) ! j) \<longrightarrow> j < n) \<and>
         (if \<exists>f\<in>set (record_fields (example_heap 0)). is_control_field f
          then 0 < n \<and> is_control_field (record_fields (example_heap 0) ! (n - 1))
          else n = 0))"
proof -
  have a: "getitem example_codes ''ISNI'' = Inr (PStr ''0000000123456789'')"
    by (simp add: example_codes_def)
  have b: "getitem example_codes ''VIAF'' = Inr (PStr ''12345'')"
    by (simp add: example_codes_def)
  have c: "getitem example_codes ''WKP'' = Inr (PStr ''Q42'')"
    by (simp add: example_codes_def)
  have d: "truthy (PStr ''0000000123456789'') \<or> truthy (PStr ''12345'') \<or> truthy (PStr ''Q42'')"
    by simp
  from splice_after_last_control_field [OF a b c d, where py_str = no_str and h = example_heap and r = 0]
    a b c d
  show ?thesis by blast
qed

subsection \<open>The invariant is kept\<close>

text \<open>
  C2. If the field list of a record is well-formed (no variable field before a control
  field), then for every codes argument on which \<^verbatim>\<open>update_record\<close> returns, the field
  list of the record it returns is well-formed too. (On the other arguments it
  raises before assigning, and there is no record produced.)
\<close>

theorem update_record_keeps_well_formed:
  assumes "well_formed (record_fields (h r))"
    and "update_record py_str h r codes = Inr (h', r')"
  shows "well_formed (record_fields (h' r'))"
proof -
  from update_record_Inr_dict [OF assms(2)] obtain isni viaf wkp where
    g: "getitem codes ''ISNI'' = Inr isni" "getitem codes ''VIAF'' = Inr viaf"
      "getitem codes ''WKP'' = Inr wkp"
    by blast
  from update_record_dict [OF g, of py_str h r] assms(2)
  have "r' = r" and "record_fields (h' r) =
      take (splice_index (record_fields (h r))) (record_fields (h r)) @
      built_fields py_str isni viaf wkp @
      drop (splice_index (record_fields (h r))) (record_fields (h r))"
    by auto
  moreover have "\<forall>f\<in>set (built_fields py_str isni viaf wkp). \<not> is_control_field f"
    using built_fields_not_control by blast
  ultimately show ?thesis
    using well_formed_splice [OF assms(1)] by simp
qed

theorem update_record_keeps_well_formed_witness:
  "well_formed (record_fields (example_heap 0)) \<and>
   update_record no_str example_heap 0 viaf_only_codes =
     Inr (example_heap(0 := \<lparr>record_fields = [control_001, viaf_field ''12345'', title_245]\<rparr>), 0) \<and>
   well_formed (record_fields
     ((example_heap(0 := \<lparr>record_fields = [control_001, viaf_field ''12345'', title_245]\<rparr>)) 0))"
proof -
  have a: "well_formed (record_fields (example_heap 0))"
    by (simp add: well_formed_def example_heap_def new_store_def example_record_def control_001_def
        title_245_def is_control_field_def isdigit_def)
  have b: "update_record no_str example_heap 0 viaf_only_codes =
     Inr (example_heap(0 := \<lparr>record_fields = [control_001, viaf_field ''12345'', title_245]\<rparr>), 0)"
    by (simp add: update_record_def Let_def viaf_only_codes_def slice_to_def slice_from_def
        last_fixed_index_def example_heap_def new_store_def example_record_def control_001_def
        title_245_def is_control_field_def isdigit_def format_value_def)
  from update_record_keeps_well_formed [OF a b] a b show ?thesis by blast
qed

subsection \<open>The record is updated in place\<close>

text \<open>
  C3, as stated, fails: \<^verbatim>\<open>update_record\<close> assigns the spliced list to the \<^verbatim>\<open>fields\<close>
  attribute of the record it was given and returns that same reference. On the
  example record and codes the reference returned is the one passed in, and the
  field list found behind it after the call differs from the one before.
\<close>

theorem update_record_not_pure_counterexample:
  "update_record no_str example_heap 0 example_codes =
     Inr (example_heap(0 := \<lparr>record_fields =
            [control_001, isni_field ''0000000123456789'', viaf_field ''12345'',
             wkp_field ''Q42'', title_245]\<rparr>), 0) \<and>
   record_fields
     ((example_heap(0 := \<lparr>record_fields =
            [control_001, isni_field ''0000000123456789'', viaf_field ''12345'',
             wkp_field ''Q42'', title_245]\<rparr>)) 0) \<noteq>
   record_fields (example_heap 0)"
  by (simp add: update_record_def Let_def example_codes_def slice_to_def slice_from_def
      last_fixed_index_def example_heap_def new_store_def example_record_def control_001_def
      title_245_def is_control_field_def isdigit_def format_value_def)

text \<open>
  C3, amended. Whenever \<^verbatim>\<open>update_record\<close> returns, it returns the reference of its
  input record, no other record of the store has changed, and the field list now in
  the input record is the old one cut at one point with fields put in between: the
  fields that were there are all kept, unchanged and in their order.
\<close>

theorem update_record_in_place:
  assumes "update_record py_str h r codes = Inr (h', r')"
  shows "r' = r \<and> (\<forall>q. q \<noteq> r \<longrightarrow> h' q = h q) \<and>
    (\<exists>n ins. n \<le> length (record_fields (h r)) \<and>
       record_fields (h' r) = take n (record_fields (h r)) @ ins @ drop n (record_fields (h r)))"
proof -
  from update_record_Inr_dict [OF assms] obtain isni viaf wkp where
    g: "getitem codes ''ISNI'' = Inr isni" "getitem codes ''VIAF'' = Inr viaf"
      "getitem codes ''WKP'' = Inr wkp"
    by blast
  from update_record_dict [OF g, of py_str h r] assms
  have r: "r' = r" and h': "h' = h(r := (h r)\<lparr>record_fields :=
      take (splice_index (record_fields (h r))) (record_fields (h r)) @
      built_fields py_str isni viaf wkp @
      drop (splice_index (record_fields (h r))) (record_fields (h r))\<rparr>)"
    by auto
  have "\<exists>n ins. n \<le> length (record_fields (h r)) \<and>
       record_fields (h' r) = take n (record_fields (h r)) @ ins @ drop n (record_fields (h r))"
    unfolding h' using splice_index_le [of "record_fields (h r)"] by auto
  with r h' show ?thesis by simp
qed

theorem update_record_in_place_witness:
  "update_record no_str example_heap 3 viaf_only_codes =
     Inr (example_heap(3 := \<lparr>record_fields = [control_001, viaf_field ''12345'', title_245]\<rparr>), 3) \<and>
   (example_heap(3 := \<lparr>record_fields = [control_001, viaf_field ''12345'', title_245]\<rparr>)) 0 =
     example_heap 0 \<and>
   (\<exists>n ins. n \<le> length (record_fields (example_heap 3)) \<and>
       record_fields
         ((example_heap(3 := \<lparr>record_fields = [control_001, viaf_field ''12345'', title_245]\<rparr>)) 3) =
         take n (record_fields (example_heap 3)) @ ins @ drop n (record_fields (example_heap 3)))"
proof -
  have a: "update_record no_str example_heap 3 viaf_only_codes =
     Inr (example_heap(3 := \<lparr>record_fields = [control_001, viaf_field ''12345'', title_245]\<rparr>), 3)"
    by (simp add: update_record_def Let_def viaf_only_codes_def slice_to_def slice_from_def
        last_fixed_index_def example_heap_def new_store_def example_record_def control_001_def
        title_245_def is_control_field_def isdigit_def format_value_def)
  from update_record_in_place [OF a] a show ?thesis by simp
qed

subsection \<open>A codes argument that is None\<close>

text \<open>
  C5. The claim is that \<^verbatim>\<open>update_record\<close>, given None for the codes, treats the three
  codes as absent and returns. The code subscripts the argument at line 46 without
  a test, so on None it raises TypeError and returns nothing. This is the value that
  \<^verbatim>\<open>viaf_request\<close> returns on every failure and that the driver passes on as it is.
\<close>

theorem update_record_None_raises: "update_record py_str h r PNone = Inl TypeError"
  by (simp add: update_record_def Let_def)

subsection \<open>The fields built\<close>

text \<open>
  C6. For codes that are three optional strings (None or a str under each of the
  three keys), the list \<^verbatim>\<open>update_record\<close> splices in is \<open>spec_new_fields\<close>: at most
  three fields in the order ISNI, VIAF, Wikidata, each there exactly when its code is
  a non-empty string, with tag 024, the indicators and the subfields the
  specification lists.
\<close>

theorem update_record_spec_fields:
  assumes "getitem codes ''ISNI'' = Inr (py_opt isni)" "getitem codes ''VIAF'' = Inr (py_opt viaf)"
    "getitem codes ''WKP'' = Inr (py_opt wkp)"
  shows "update_record py_str h r codes =
           Inr (h(r := (h r)\<lparr>record_fields :=
                  take (splice_index (record_fields (h r))) (record_fields (h r)) @
                  spec_new_fields isni viaf wkp @
                  drop (splice_index (record_fields (h r))) (record_fields (h r))\<rparr>), r) \<and>
         length (spec_new_fields isni viaf wkp) \<le> 3"
proof
  show "update_record py_str h r codes =
           Inr (h(r := (h r)\<lparr>record_fields :=
                  take (splice_index (record_fields (h r))) (record_fields (h r)) @
                  spec_new_fields isni viaf wkp @
                  drop (splice_index (record_fields (h r))) (record_fields (h r))\<rparr>), r)"
    using update_record_dict [OF assms, of py_str h r] by (simp add: built_fields_spec)
  show "length (spec_new_fields isni viaf wkp) \<le> 3"
    by (simp add: spec_new_fields_def split: option.splits)
qed

text \<open>The example of the specification: one control field 001, one variable field, all
  three codes.\<close>

theorem update_record_spec_fields_witness:
  "getitem example_codes ''ISNI'' = Inr (py_opt (Some ''0000000123456789'')) \<and>
   getitem example_codes ''VIAF'' = Inr (py_opt (Some ''12345'')) \<and>
   getitem example_codes ''WKP'' = Inr (py_opt (Some ''Q42'')) \<and>
   update_record no_str example_heap 0 example_codes =
     Inr (example_heap(0 := \<lparr>record_fields =
        [control_001,
         \<lparr>tag = ''024'', data = None, indicators = [''7'', '' ''],
          subfields = [Subfield ''a'' ''0000000123456789'', Subfield ''2'' ''isni'']\<rparr>,
         \<lparr>tag = ''024'', data = None, indicators = [''7'', '' ''],
          subfields = [Subfield ''a'' ''http://viaf.org/viaf/12345'', Subfield ''2'' ''uri'']\<rparr>,
         \<lparr>tag = ''024'', data = None, indicators = [''8'', '' ''],
          subfields = [Subfield ''a'' ''https://www.wikidata.org/wiki/Q42'']\<rparr>,
         title_245]\<rparr>), 0)"
proof -
  have a: "getitem example_codes ''ISNI'' = Inr (py_opt (Some ''0000000123456789''))"
    by (simp add: example_codes_def)
  have b: "getitem example_codes ''VIAF'' = Inr (py_opt (Some ''12345''))"
    by (simp add: example_codes_def)
  have c: "getitem example_codes ''WKP'' = Inr (py_opt (Some ''Q42''))"
    by (simp add: example_codes_def)
  have n: "splice_index [control_001, title_245] = 1"
    by (simp add: splice_index_def last_fixed_index_def control_001_def title_245_def
        is_control_field_def isdigit_def)
  have f: "record_fields (example_heap 0) = [control_001, title_245]"
    by (simp add: example_heap_def new_store_def example_record_def)
  from update_record_spec_fields [OF a b c, where py_str = no_str and h = example_heap and r = 0,
      THEN conjunct1]
  have "update_record no_str example_heap 0 example_codes =
     Inr (example_heap(0 := (example_heap 0)\<lparr>record_fields :=
        take 1 [control_001, title_245] @
        spec_new_fields (Some ''0000000123456789'') (Some ''12345'') (Some ''Q42'') @
        drop 1 [control_001, title_245]\<rparr>), 0)"
    by (simp only: f n)
  moreover have "example_heap 0 = \<lparr>record_fields = [control_001, title_245]\<rparr>"
    by (simp add: example_heap_def new_store_def example_record_def)
  ultimately show ?thesis using a b c by (simp add: spec_new_fields_def)
qed

subsection \<open>No code present\<close>

text \<open>
  C7. When none of the three codes is present (each value is None, or empty),
  \<^verbatim>\<open>update_record\<close> returns the record with the field list it had: the same fields,
  in the same order, with the same content, and the store as a whole is as before.
\<close>

theorem update_record_absent_codes:
  assumes "getitem codes ''ISNI'' = Inr isni" "getitem codes ''VIAF'' = Inr viaf"
    "getitem codes ''WKP'' = Inr wkp"
    and "\<not> truthy isni" "\<not> truthy viaf" "\<not> truthy wkp"
  shows "update_record py_str h r codes = Inr (h, r)"
  using update_record_dict [OF assms(1-3), of py_str h r]
    built_fields_absent [OF assms(4-6), of py_str]
  by simp

theorem update_record_absent_codes_witness:
  "getitem absent_codes ''ISNI'' = Inr PNone \<and> getitem absent_codes ''VIAF'' = Inr PNone \<and>
   getitem absent_codes ''WKP'' = Inr PNone \<and> \<not> truthy PNone \<and>
   update_record no_str example_heap 0 absent_codes = Inr (example_heap, 0)"
proof -
  have a: "getitem absent_codes ''ISNI'' = Inr PNone" by (simp add: absent_codes_def)
  have b: "getitem absent_codes ''VIAF'' = Inr PNone" by (simp add: absent_codes_def)
  have c: "getitem absent_codes ''WKP'' = Inr PNone" by (simp add: absent_codes_def)
  have d: "\<not> truthy PNone" by simp
  from update_record_absent_codes [OF a b c d d d, where py_str = no_str and h = example_heap and r = 0]
    a b c d
  show ?thesis by blast
qed

section \<open>Properties of the resolver\<close>

lemma first_of_key_dict:
  "first_of_key (PDict d) k = (case map_of d k of None \<Rightarrow> Inr PNone | Some v \<Rightarrow> subscript0 v)"
proof -
  have "k \<in> fst ` set d \<longleftrightarrow> map_of d k \<noteq> None"
    by (simp add: map_of_eq_None_iff)
  then show ?thesis
    by (auto simp: first_of_key_def split: option.splits)
qed

lemma value_of_key_dict:
  "value_of_key (PDict d) k = Inr (case map_of d k of None \<Rightarrow> PNone | Some v \<Rightarrow> v)"
proof -
  have "k \<in> fst ` set d \<longleftrightarrow> map_of d k \<noteq> None"
    by (simp add: map_of_eq_None_iff)
  then show ?thesis
    by (auto simp: value_of_key_def split: option.splits)
qed

lemma viaf_request_200_dict:
  assumes "http_get (viaf_url ident) = Inr resp" "status_code resp = 200"
    "json_body resp = Some (PDict d)"
  shows "viaf_request http_get ident =
     (case first_of_key (PDict d) ''ISNI'' of Inl e \<Rightarrow> Inl e | Inr isni_code \<Rightarrow>
      case first_of_key (PDict d) ''WKP'' of Inl e \<Rightarrow> Inl e | Inr wkp_code \<Rightarrow>
        Inr (PDict [(''ISNI'', isni_code),
                    (''VIAF'', case map_of d ''viafID'' of None \<Rightarrow> PNone | Some v \<Rightarrow> v),
                    (''WKP'', wkp_code)]))"
  using assms by (simp add: viaf_request_def value_of_key_dict split: sum.splits)

subsection \<open>What is extracted from a JSON object\<close>

text \<open>
  C8, as stated, fails: it promises codes for every status-200 response whose body is
  a JSON object, and the body \<^verbatim>\<open>{"viafID": "999", "WKP": []}\<close> is one for which
  \<^verbatim>\<open>viaf_request\<close> returns nothing, since taking element 0 of the empty array
  raises IndexError, which the handler does not catch.
\<close>

theorem viaf_request_empty_array_counterexample:
  "viaf_request http_empty_wkp ''a11234567'' = Inl IndexError"
  by (simp add: viaf_request_def http_empty_wkp_def first_of_key_def value_of_key_def)

text \<open>
  C8, amended. For every status-200 response whose body is a JSON object in which
  each of the keys ISNI and WKP is either missing or bound to a non-empty array,
  \<^verbatim>\<open>viaf_request\<close> returns the dict of codes in which ISNI is the first element of
  the array under ISNI if that key is there and None otherwise, VIAF is the value
  under viafID if that key is there and None otherwise, and WKP is the first element
  of the array under WKP if that key is there and None otherwise. Here \<open>isni\<close> and
  \<open>wkp\<close> are the head and tail of the array when the key is there, and \<open>viaf\<close> is
  the value under viafID when that key is there.
\<close>

theorem viaf_request_extracts:
  assumes "http_get (viaf_url ident) = Inr resp" "status_code resp = 200"
    "json_body resp = Some (PDict d)"
    and "map_of d ''ISNI'' = map_option (\<lambda>(x, xs). PList (x # xs)) isni"
    and "map_of d ''viafID'' = viaf"
    and "map_of d ''WKP'' = map_option (\<lambda>(x, xs). PList (x # xs)) wkp"
  shows "viaf_request http_get ident =
     Inr (PDict [(''ISNI'', case isni of None \<Rightarrow> PNone | Some (x, xs) \<Rightarrow> x),
                 (''VIAF'', case viaf of None \<Rightarrow> PNone | Some v \<Rightarrow> v),
                 (''WKP'', case wkp of None \<Rightarrow> PNone | Some (x, xs) \<Rightarrow> x)])"
  using assms(4-6) unfolding viaf_request_200_dict [where http_get = http_get and ident = ident, OF assms(1-3)]
  by (auto simp: first_of_key_dict split: option.splits)

text \<open>The example of the specification: the body \<^verbatim>\<open>{"viafID": "999"}\<close>.\<close>

theorem viaf_request_extracts_witness:
  "http_999 (viaf_url ''a11234567'') =
     Inr \<lparr>status_code = 200, json_body = Some (PDict [(''viafID'', PStr ''999'')])\<rparr> \<and>
   viaf_request http_999 ''a11234567'' =
     Inr (PDict [(''ISNI'', PNone), (''VIAF'', PStr ''999''), (''WKP'', PNone)])"
proof -
  let ?d = "[(''viafID'', PStr ''999'')]"
  let ?resp = "\<lparr>status_code = 200, json_body = Some (PDict ?d)\<rparr>"
  have a: "http_999 (viaf_url ''a11234567'') = Inr ?resp" by (simp add: http_999_def)
  have b: "status_code ?resp = 200" by simp
  have c: "json_body ?resp = Some (PDict ?d)" by simp
  have i: "map_of ?d ''ISNI'' = map_option (\<lambda>(x, xs). PList (x # xs)) None" by simp
  have v: "map_of ?d ''viafID'' = Some (PStr ''999'')" by simp
  have w: "map_of ?d ''WKP'' = map_option (\<lambda>(x, xs). PList (x # xs)) None" by simp
  from viaf_request_extracts [where http_get = http_999 and ident = "''a11234567''", OF a b c i v w] a show ?thesis by simp
qed

subsection \<open>Failure results\<close>

text \<open>
  C9. On a response whose status is not 200, and on a status-200 response whose body
  is not JSON, \<^verbatim>\<open>viaf_request\<close> returns (it does not raise), and what it returns is
  None: a value that holds no code, since no key can be read from it.
\<close>

theorem viaf_request_failure:
  assumes "http_get (viaf_url ident) = Inr resp"
    and "status_code resp \<noteq> 200 \<or> json_body resp = None"
  shows "viaf_request http_get ident = Inr PNone \<and> (\<forall>k v. getitem PNone k \<noteq> Inr v)"
  using assms by (auto simp: viaf_request_def)

theorem viaf_request_failure_witness:
  "http_404 (viaf_url ''a11234567'') = Inr \<lparr>status_code = 404, json_body = None\<rparr> \<and>
   status_code \<lparr>status_code = 404, json_body = None\<rparr> = 404 \<and>
   viaf_request http_404 ''a11234567'' = Inr PNone \<and>
   http_not_json (viaf_url ''a11234567'') = Inr \<lparr>status_code = 200, json_body = None\<rparr> \<and>
   json_body \<lparr>status_code = 200, json_body = None\<rparr> = None \<and>
   viaf_request http_not_json ''a11234567'' = Inr PNone"
proof -
  have a: "http_404 (viaf_url ''a11234567'') = Inr \<lparr>status_code = 404, json_body = None\<rparr>"
    by (simp add: http_404_def)
  have b: "status_code \<lparr>status_code = 404, json_body = None\<rparr> \<noteq> 200 \<or>
    json_body \<lparr>status_code = 404, json_body = None\<rparr> = None" by simp
  have c: "http_not_json (viaf_url ''a11234567'') = Inr \<lparr>status_code = 200, json_body = None\<rparr>"
    by (simp add: http_not_json_def)
  have d: "status_code \<lparr>status_code = 200, json_body = None\<rparr> \<noteq> 200 \<or>
    json_body \<lparr>status_code = 200, json_body = None\<rparr> = None" by simp
  from viaf_request_failure [where http_get = http_404 and ident = "''a11234567''", OF a b]
    viaf_request_failure [where http_get = http_not_json and ident = "''a11234567''", OF c d] a c
  show ?thesis by simp
qed

subsection \<open>An empty array\<close>

text \<open>
  C10. There are status-200 responses with a well-formed JSON body on which
  \<^verbatim>\<open>viaf_request\<close> raises IndexError: every object that binds ISNI to the empty
  array, and every object that binds WKP to the empty array while its ISNI is missing
  or a non-empty array (so that the extraction of ISNI, which comes first, succeeds).
  The exception leaves the function: the handler is for the failure of \<^verbatim>\<open>.json()\<close>.
\<close>

theorem viaf_request_IndexError:
  assumes "http_get (viaf_url ident) = Inr resp" "status_code resp = 200"
    "json_body resp = Some (PDict d)"
    and "map_of d ''ISNI'' = Some (PList []) \<or>
         (map_of d ''WKP'' = Some (PList []) \<and>
          (map_of d ''ISNI'' = None \<or> (\<exists>x xs. map_of d ''ISNI'' = Some (PList (x # xs)))))"
  shows "viaf_request http_get ident = Inl IndexError"
  using assms(4) unfolding viaf_request_200_dict [where http_get = http_get and ident = ident, OF assms(1-3)]
  by (auto simp: first_of_key_dict)

theorem viaf_request_IndexError_witness:
  "http_empty_isni (viaf_url ''a11234567'') =
     Inr \<lparr>status_code = 200, json_body = Some (PDict [(''ISNI'', PList [])])\<rparr> \<and>
   map_of [(''ISNI'', PList [])] ''ISNI'' = Some (PList []) \<and>
   viaf_request http_empty_isni ''a11234567'' = Inl IndexError"
proof -
  let ?d = "[(''ISNI'', PList [])]"
  let ?resp = "\<lparr>status_code = 200, json_body = Some (PDict ?d)\<rparr>"
  have a: "http_empty_isni (viaf_url ''a11234567'') = Inr ?resp" by (simp add: http_empty_isni_def)
  have b: "status_code ?resp = 200" by simp
  have c: "json_body ?resp = Some (PDict ?d)" by simp
  have e: "map_of ?d ''ISNI'' = Some (PList [])" by simp
  then have f: "map_of ?d ''ISNI'' = Some (PList []) \<or>
         (map_of ?d ''WKP'' = Some (PList []) \<and>
          (map_of ?d ''ISNI'' = None \<or> (\<exists>x xs. map_of ?d ''ISNI'' = Some (PList (x # xs)))))"
    by (rule disjI1)
  from viaf_request_IndexError [where http_get = http_empty_isni and ident = "''a11234567''", OF a b c f] a e show ?thesis by blast
qed

section \<open>Properties of the driver\<close>

lemma process_record_Inr:
  assumes "process_record py_str http_get item = Inr w"
  shows "\<exists>rec f codes h'. item = Some rec \<and>
     getitem_tag (record_fields rec) ''001'' = Inr f \<and>
     viaf_request http_get (case data f of None \<Rightarrow> ''None'' | Some s \<Rightarrow> s) = Inr codes \<and>
     update_record py_str (new_store rec) 0 codes = Inr (h', 0) \<and> w = h' 0"
proof -
  from assms obtain rec where rec: "item = Some rec"
    by (cases item) (simp_all add: process_record_def)
  from assms rec obtain f where f: "getitem_tag (record_fields rec) ''001'' = Inr f"
    by (cases "getitem_tag (record_fields rec) ''001''") (simp_all add: process_record_def)
  let ?id = "case data f of None \<Rightarrow> ''None'' | Some s \<Rightarrow> s"
  from assms rec f obtain codes where c: "viaf_request http_get ?id = Inr codes"
    by (cases "viaf_request http_get ?id") (simp_all add: process_record_def)
  from assms rec f c obtain h' r' where u: "update_record py_str (new_store rec) 0 codes = Inr (h', r')"
    and w: "w = h' 0"
    by (cases "update_record py_str (new_store rec) 0 codes") (auto simp: process_record_def)
  from update_record_Inr_dict [OF u] obtain isni viaf wkp where
    g: "getitem codes ''ISNI'' = Inr isni" "getitem codes ''VIAF'' = Inr viaf"
      "getitem codes ''WKP'' = Inr wkp"
    by blast
  from update_record_dict [OF g, of py_str "new_store rec" 0] u have "r' = 0" by simp
  with rec f c u w show ?thesis by blast
qed

lemma process_loop_written:
  assumes "process_loop py_str http_get n c reader = (written, err)" "i < length written"
  shows "i < length reader \<and> process_record py_str http_get (reader ! i) = Inr (written ! i)"
  using assms
proof (induction reader arbitrary: c written err i)
  case Nil
  then show ?case by simp
next
  case (Cons item reader)
  from Cons.prems obtain w where w: "process_record py_str http_get item = Inr w"
    by (cases "process_record py_str http_get item") auto
  show ?case
  proof (cases "case n of None \<Rightarrow> False | Some m \<Rightarrow> m \<le> c + 1")
    case True
    with Cons.prems w have "written = [w]" by simp
    with Cons.prems(2) w show ?thesis by simp
  next
    case False
    obtain ws e where rest: "process_loop py_str http_get n (c + 1) reader = (ws, e)"
      by (cases "process_loop py_str http_get n (c + 1) reader")
    with Cons.prems(1) w False have written: "written = w # ws" by simp
    show ?thesis
    proof (cases i)
      case 0
      with written w show ?thesis by simp
    next
      case (Suc j)
      with Cons.prems(2) written have "j < length ws" by simp
      from Cons.IH [OF rest this] Suc written show ?thesis by simp
    qed
  qed
qed

lemma ex_process_record:
  "process_record no_str http_999 (Some example_record) =
     Inr \<lparr>record_fields = [control_001, viaf_field ''999'', title_245]\<rparr>"
  by (simp add: process_record_def Let_def viaf_request_def http_999_def first_of_key_def
      value_of_key_def control_001_def update_record_def slice_to_def slice_from_def
      last_fixed_index_def new_store_def example_record_def
      title_245_def is_control_field_def isdigit_def format_value_def)

text \<open>
  C4, as stated, fails: the driver passes to the writer the object that the variable
  \<^verbatim>\<open>record\<close> refers to, and \<^verbatim>\<open>update_record\<close> has by then replaced the field list of
  that very object. With a service that returns a VIAF code, the record written has
  the new 024 field, and its field list is not the one that was read.
\<close>

theorem driver_writes_original_counterexample:
  "process_marc_records no_str http_999 [Some example_record] None =
     ([\<lparr>record_fields = [control_001, viaf_field ''999'', title_245]\<rparr>], None) \<and>
   record_fields \<lparr>record_fields = [control_001, viaf_field ''999'', title_245]\<rparr> \<noteq>
     record_fields example_record"
proof
  show "process_marc_records no_str http_999 [Some example_record] None =
     ([\<lparr>record_fields = [control_001, viaf_field ''999'', title_245]\<rparr>], None)"
    by (simp add: process_marc_records_def ex_process_record)
  show "record_fields \<lparr>record_fields = [control_001, viaf_field ''999'', title_245]\<rparr> \<noteq>
     record_fields example_record"
    by (simp add: example_record_def)
qed

text \<open>
  C4, amended. Every record the driver writes is the record it read at the same
  position, as \<^verbatim>\<open>update_record\<close> left it: the field list written is the spliced list
  that the update step produced for the codes resolved from the record's 001 field.
\<close>

theorem driver_writes_updated_record:
  assumes "process_marc_records py_str http_get reader n = (written, err)"
    and "i < length written"
  shows "\<exists>rec f codes h'. i < length reader \<and> reader ! i = Some rec \<and>
     getitem_tag (record_fields rec) ''001'' = Inr f \<and>
     viaf_request http_get (case data f of None \<Rightarrow> ''None'' | Some s \<Rightarrow> s) = Inr codes \<and>
     update_record py_str (new_store rec) 0 codes = Inr (h', 0) \<and>
     written ! i = h' 0"
proof -
  from assms have "i < length reader"
    and "process_record py_str http_get (reader ! i) = Inr (written ! i)"
    using process_loop_written [of py_str http_get n 0 reader written err i]
    by (simp_all add: process_marc_records_def)
  with process_record_Inr [of py_str http_get "reader ! i" "written ! i"]
  show ?thesis by blast
qed

theorem driver_writes_updated_record_witness:
  "process_marc_records no_str http_999 [Some example_record, Some example_record] (Some 1) =
     ([\<lparr>record_fields = [control_001, viaf_field ''999'', title_245]\<rparr>], None) \<and>
   0 < length [\<lparr>record_fields = [control_001, viaf_field ''999'', title_245]\<rparr>] \<and>
   (\<exists>rec f codes h'. 0 < length [Some example_record, Some example_record] \<and>
     [Some example_record, Some example_record] ! 0 = Some rec \<and>
     getitem_tag (record_fields rec) ''001'' = Inr f \<and>
     viaf_request http_999 (case data f of None \<Rightarrow> ''None'' | Some s \<Rightarrow> s) = Inr codes \<and>
     update_record no_str (new_store rec) 0 codes = Inr (h', 0) \<and>
     [\<lparr>record_fields = [control_001, viaf_field ''999'', title_245]\<rparr>] ! 0 = h' 0)"
proof -
  have a: "process_marc_records no_str http_999 [Some example_record, Some example_record] (Some 1) =
     ([\<lparr>record_fields = [control_001, viaf_field ''999'', title_245]\<rparr>], None)"
    by (simp add: process_marc_records_def ex_process_record)
  have b: "0 < length [\<lparr>record_fields = [control_001, viaf_field ''999'', title_245]\<rparr>]"
    by simp
  from driver_writes_updated_record [OF a b] a b show ?thesis by blast
qed

end
